theory Spec2Isabelle
  imports Main "HOL-Library.Sublist"
begin

section \<open>JavaScript strings\<close>

text \<open>
  A JavaScript string is modelled as a HOL \<^typ>\<open>string\<close>. Each \<^typ>\<open>char\<close> stands for
  one code unit below 256, read as the code point of that number (ASCII and Latin-1).
  The string primitives the renderer calls are written out on that range.
\<close>

definition code_point :: "char \<Rightarrow> nat" where
  "code_point c = of_char c"

text \<open>The class \<^verbatim>\<open>\w\<close> of a regular expression without flags: \<^verbatim>\<open>[A-Za-z0-9_]\<close>.\<close>

definition is_word :: "char \<Rightarrow> bool" where
  "is_word c = (let n = code_point c in
     (48 \<le> n \<and> n \<le> 57) \<or> (65 \<le> n \<and> n \<le> 90) \<or> n = 95 \<or> (97 \<le> n \<and> n \<le> 122))"

text \<open>
  What \<^verbatim>\<open>String.prototype.trim\<close> strips: TAB, LF, VT, FF, CR, SPACE and NBSP are the
  white space and line terminators below 256.
\<close>

definition is_space :: "char \<Rightarrow> bool" where
  "is_space c = (let n = code_point c in (9 \<le> n \<and> n \<le> 13) \<or> n = 32 \<or> n = 160)"

text \<open>
  \<^verbatim>\<open>toLowerCase\<close>: \<^verbatim>\<open>A-Z\<close> and the Latin-1 capitals (192 to 222 but the
  multiplication sign 215) move up by 32; every other code point below 256 stays.
\<close>

definition lower_char :: "char \<Rightarrow> char" where
  "lower_char c = (let n = code_point c in
     if (65 \<le> n \<and> n \<le> 90) \<or> (192 \<le> n \<and> n \<le> 222 \<and> n \<noteq> 215)
     then char_of (n + 32) else c)"

definition toLowerCase :: "string \<Rightarrow> string" where
  "toLowerCase s = map lower_char s"

definition trim :: "string \<Rightarrow> string" where
  "trim s = rev (dropWhile is_space (rev (dropWhile is_space s)))"

text \<open>The decimal digits of a number, as a template literal prints it.\<close>

fun decimal :: "nat \<Rightarrow> string" where
  "decimal n = (if n < 10 then [char_of (48 + n)]
                else decimal (n div 10) @ [char_of (48 + n mod 10)])"

declare decimal.simps [simp del]

text \<open>\<^verbatim>\<open>String.prototype.includes\<close>.\<close>

fun includes_str :: "string \<Rightarrow> string \<Rightarrow> bool" where
  "includes_str [] sub = (sub = [])"
| "includes_str (c # cs) sub = (prefix sub (c # cs) \<or> includes_str cs sub)"


section \<open>Language normalizer\<close>

text \<open>
  \<^verbatim>\<open>LANG_MAP\<close> is an object literal, so \<^verbatim>\<open>LANG_MAP[l]\<close> finds its seven own
  properties and, after them, the members of \<^verbatim>\<open>Object.prototype\<close>. A value read
  from it is one of the alias strings or an inherited member (a function, or for
  \<^verbatim>\<open>__proto__\<close> the prototype object); all of them are truthy.
\<close>

datatype js_value = JSString string | Inherited string

definition LANG_MAP_own :: "(string \<times> string) list" where
  "LANG_MAP_own =
     [(''js'', ''javascript''),
      (''ts'', ''typescript''),
      (''html'', ''markup''),
      (''xml'', ''markup''),
      (''sh'', ''bash''),
      (''shell'', ''bash''),
      (''yml'', ''yaml'')]"

definition object_prototype_members :: "string list" where
  "object_prototype_members =
     [''constructor'', ''__proto__'', ''hasOwnProperty'', ''isPrototypeOf'',
      ''propertyIsEnumerable'', ''toLocaleString'', ''toString'', ''valueOf'',
      ''__defineGetter__'', ''__defineSetter__'', ''__lookupGetter__'',
      ''__lookupSetter__'']"

text \<open>\<^verbatim>\<open>LANG_MAP[k]\<close>; \<open>None\<close> is \<^verbatim>\<open>undefined\<close>.\<close>

definition LANG_MAP :: "string \<Rightarrow> js_value option" where
  "LANG_MAP k =
     (case map_of LANG_MAP_own k of
        Some v \<Rightarrow> Some (JSString v)
      | None \<Rightarrow> if k \<in> set object_prototype_members then Some (Inherited k) else None)"

text \<open>
  The argument is \<open>None\<close> for an absent (\<^verbatim>\<open>undefined\<close>) tag. \<^verbatim>\<open>!lang\<close> holds for
  the absent and for the empty string; \<^verbatim>\<open>LANG_MAP[l] || l\<close> is the value found, when
  one is found.
\<close>

definition normalizeLang :: "string option \<Rightarrow> js_value" where
  "normalizeLang lang =
     (case lang of
        None \<Rightarrow> JSString ''javascript''
      | Some s \<Rightarrow>
          if s = [] then JSString ''javascript''
          else (let l = trim (toLowerCase s) in
                case LANG_MAP l of Some v \<Rightarrow> v | None \<Rightarrow> JSString l))"

text \<open>
  \<^verbatim>\<open>ToString\<close>, as the template literal \<^verbatim>\<open>`language-${lang}`\<close> and the property
  key \<^verbatim>\<open>Prism.languages[lang]\<close> apply it. A built-in function prints as V8 and
  JavaScriptCore print it.
\<close>

definition to_string :: "js_value \<Rightarrow> string" where
  "to_string v =
     (case v of
        JSString s \<Rightarrow> s
      | Inherited k \<Rightarrow>
          if k = ''__proto__'' then ''[object Object]''
          else ''function '' @ (if k = ''constructor'' then ''Object'' else k)
               @ ''() { [native code] }'')"


section \<open>Slugs\<close>

text \<open>
  \<^verbatim>\<open>.replace(/[^\w]+/g, '-')\<close>: every maximal run of characters outside
  \<^verbatim>\<open>\w\<close> becomes one hyphen.
\<close>

function replace_nonword_runs :: "string \<Rightarrow> string" where
  "replace_nonword_runs [] = []"
| "replace_nonword_runs (c # cs) =
     (if is_word c then c # replace_nonword_runs cs
      else CHR ''-'' # replace_nonword_runs (dropWhile (\<lambda>d. \<not> is_word d) cs))"
  by pat_completeness auto
termination
  by (relation "measure length") (auto simp: length_dropWhile_le less_Suc_eq_le)

text \<open>
  \<^verbatim>\<open>.replace(/(^-|-$)/g, '')\<close>: a hyphen at index 0 is the first match; the search
  goes on behind it, where only a hyphen at the last index can match.
\<close>

definition strip_edge_hyphens :: "string \<Rightarrow> string" where
  "strip_edge_hyphens s =
     (let s1 = (case s of [] \<Rightarrow> [] | c # cs \<Rightarrow> if c = CHR ''-'' then cs else c # cs)
      in if s1 \<noteq> [] \<and> last s1 = CHR ''-'' then butlast s1 else s1)"

definition slugify :: "string \<Rightarrow> string" where
  "slugify text = strip_edge_hyphens (replace_nonword_runs (toLowerCase text))"


section \<open>The highlighter, the response and the errors\<close>

text \<open>
  The highlighting engine is an external library. A grammar is an opaque value known by
  its name; \<open>languages\<close> is the lookup \<^verbatim>\<open>Prism.languages[key]\<close> (\<open>None\<close> when the
  value found is falsy) and \<open>highlight\<close> is \<^verbatim>\<open>Prism.highlight(text, grammar, language)\<close>.
\<close>

datatype grammar = Grammar string

record prism =
  manual :: bool
  languages :: "string \<Rightarrow> grammar option"
  highlight :: "string \<Rightarrow> grammar \<Rightarrow> string \<Rightarrow> string"

datatype error =
    TypeError
  | LoadError string
  | NetworkError
  | BodyError
  | ParseError

record response =
  ok :: bool
  status :: nat
  body_text :: "error + string"


section \<open>The document, the host and the page\<close>

text \<open>
  The document tree the renderer works on, in the shape the Markdown converter's output
  parses to. A heading holds inline content, of which the renderer reads the text only.
  A \<^verbatim>\<open>pre\<close> holds one \<^verbatim>\<open>code\<close> element, whose content is a text node until
  \<^verbatim>\<open>innerHTML\<close> is assigned. Any other element is a \<open>Box\<close> when headings and code
  blocks may sit below it (a quotation, a list, a table) and a \<open>Leaf\<close> otherwise.
\<close>

datatype inline = Txt string | Inline string "(string \<times> string) list" string

datatype heading_level = H1 | H2 | H3 | H4 | H5 | H6

record heading =
  level :: heading_level
  hid :: string
  kids :: "inline list"

datatype code_content = TextNode string | InnerHTML string

record code_elem =
  code_class :: string
  content :: code_content

record button =
  button_class :: string
  button_text :: string
  aria_label :: string

record pre_elem =
  pre_class :: string
  style_position :: string
  code :: code_elem
  buttons :: "button list"

datatype node =
    Heading heading
  | Pre pre_elem
  | Box string "node list"
  | Leaf string

record toc_item =
  li_class :: string
  href :: string
  label :: string

record toc =
  nav_class :: string
  title_class :: string
  title_text :: string
  items :: "toc_item list"
  observed :: "heading list"

datatype article_content = Loading string | Document "node list"

record layout =
  wrapper_class :: string
  article_class :: string
  article :: article_content
  nav :: "toc option"

text \<open>
  The block the host framework hands over is \<open>Authored t\<close>, with text content \<open>t\<close>,
  until \<^verbatim>\<open>decorate\<close> replaces its children by the layout.
\<close>

datatype block_dom = Authored string | Mounted layout

text \<open>
  What the renderer takes from its surroundings: \<^verbatim>\<open>window.hlx.codeBasePath\<close> (\<open>None\<close>
  when \<^verbatim>\<open>window.hlx\<close> is undefined), the outcome of a dynamic \<^verbatim>\<open>import\<close>, the
  engine object that \<^verbatim>\<open>prism.min.js\<close> installs as \<^verbatim>\<open>window.Prism\<close>, what a
  grammar script adds to it, \<^verbatim>\<open>fetch\<close>, \<^verbatim>\<open>marked.parse\<close>, the browser's HTML
  parser behind \<^verbatim>\<open>innerHTML\<close>, \<^verbatim>\<open>location.hash\<close>, and the ids of the elements
  of the page outside the rendered document.
\<close>

record host =
  codeBasePath :: "string option"
  import_resolves :: "string \<Rightarrow> bool"
  engine :: prism
  define_grammar :: "string \<Rightarrow> prism \<Rightarrow> prism"
  fetch :: "string \<Rightarrow> error + response"
  marked_parse :: "string \<Rightarrow> error + string"
  parse_html :: "string \<Rightarrow> node list"
  markup_text :: "string \<Rightarrow> string"
  location_hash :: string
  document_ids :: "string list"

text \<open>
  The state the renderer changes: \<^verbatim>\<open>window.Prism\<close>, the dynamic imports and the
  fetches issued so far, the block, what \<^verbatim>\<open>console.error\<close> received, and the target
  of the scroll scheduled by \<^verbatim>\<open>setTimeout\<close>.
\<close>

record page =
  window_Prism :: "prism option"
  imported :: "string list"
  fetched :: "string list"
  block :: block_dom
  console_errors :: "error list"
  scroll_target :: "string option"


section \<open>The highlighter loader\<close>

definition grammars :: "string list" where
  "grammars =
     [''prism-markup.min.js'',
      ''prism-css.min.js'',
      ''prism-javascript.min.js'',
      ''prism-typescript.min.js'',
      ''prism-bash.min.js'',
      ''prism-json.min.js'',
      ''prism-yaml.min.js'']"

text \<open>
  \<^verbatim>\<open>loadPrism\<close>, run to the point where its promise settles. \<open>Inl\<close> is a rejection.
  \<^verbatim>\<open>Promise.all\<close> starts every grammar import; the scripts that load have run when
  all of them have settled, and the first one that fails is the reason of the rejection.
\<close>

definition loadPrism :: "host \<Rightarrow> page \<Rightarrow> (error + prism) \<times> page" where
  "loadPrism h p =
     (case window_Prism p of
        Some P \<Rightarrow> (Inr P, p)
      | None \<Rightarrow>
          (case codeBasePath h of
             None \<Rightarrow> (Inl TypeError, p)
           | Some cb \<Rightarrow>
               (let base = cb @ ''/scripts/lib'';
                    core = base @ ''/prism.min.js'';
                    p1 = p\<lparr>imported := imported p @ [core]\<rparr>
                in if \<not> import_resolves h core then (Inl (LoadError core), p1)
                   else
                     (let P0 = (engine h)\<lparr>manual := True\<rparr>;
                          urls = map (\<lambda>g. base @ ''/'' @ g) grammars;
                          P1 = fold (define_grammar h) (filter (import_resolves h) urls) P0;
                          p2 = p1\<lparr>window_Prism := Some P1, imported := imported p1 @ urls\<rparr>
                      in case filter (\<lambda>u. \<not> import_resolves h u) urls of
                           [] \<Rightarrow> (Inr P1, p2)
                         | u # _ \<Rightarrow> (Inl (LoadError u), p2)))))"


section \<open>Reading and updating the rendered tree\<close>

definition inline_text :: "inline \<Rightarrow> string" where
  "inline_text i = (case i of Txt t \<Rightarrow> t | Inline tag attrs t \<Rightarrow> t)"

definition heading_text :: "heading \<Rightarrow> string" where
  "heading_text h = concat (map inline_text (kids h))"

definition code_text :: "host \<Rightarrow> code_elem \<Rightarrow> string" where
  "code_text h c = (case content c of TextNode t \<Rightarrow> t | InnerHTML m \<Rightarrow> markup_text h m)"

fun node_text :: "host \<Rightarrow> node \<Rightarrow> string" where
  "node_text h (Heading x) = heading_text x"
| "node_text h (Pre x) = code_text h (code x) @ concat (map button_text (buttons x))"
| "node_text h (Box tag ns) = concat (map (node_text h) ns)"
| "node_text h (Leaf t) = t"

definition toc_text :: "toc \<Rightarrow> string" where
  "toc_text t = title_text t @ concat (map label (items t))"

definition block_text :: "host \<Rightarrow> block_dom \<Rightarrow> string" where
  "block_text h b =
     (case b of
        Authored t \<Rightarrow> t
      | Mounted l \<Rightarrow>
          (case article l of Loading m \<Rightarrow> m | Document ns \<Rightarrow> concat (map (node_text h) ns))
          @ (case nav l of None \<Rightarrow> [] | Some t \<Rightarrow> toc_text t))"

text \<open>The elements a selector matches, in document order.\<close>

fun headings_in :: "node \<Rightarrow> heading list" where
  "headings_in (Heading x) = [x]"
| "headings_in (Pre x) = []"
| "headings_in (Box tag ns) = concat (map headings_in ns)"
| "headings_in (Leaf t) = []"

fun pres_in :: "node \<Rightarrow> pre_elem list" where
  "pres_in (Heading x) = []"
| "pres_in (Pre x) = [x]"
| "pres_in (Box tag ns) = concat (map pres_in ns)"
| "pres_in (Leaf t) = []"

definition all_headings :: "node list \<Rightarrow> heading list" where
  "all_headings c = concat (map headings_in c)"

definition h2_h3_headings :: "node list \<Rightarrow> heading list" where
  "h2_h3_headings c = filter (\<lambda>x. level x = H2 \<or> level x = H3) (all_headings c)"

definition all_pres :: "node list \<Rightarrow> pre_elem list" where
  "all_pres c = concat (map pres_in c)"

text \<open>
  \<^verbatim>\<open>querySelectorAll(...).forEach(f)\<close> where \<open>f\<close> changes the element it is given (and,
  for a code element, its parent \<^verbatim>\<open>pre\<close>) and nothing else: every matching element
  of the tree is replaced by its image.
\<close>

fun for_each_heading :: "(heading \<Rightarrow> heading) \<Rightarrow> node \<Rightarrow> node" where
  "for_each_heading f (Heading x) = Heading (f x)"
| "for_each_heading f (Pre x) = Pre x"
| "for_each_heading f (Box tag ns) = Box tag (map (for_each_heading f) ns)"
| "for_each_heading f (Leaf t) = Leaf t"

fun for_each_pre :: "(pre_elem \<Rightarrow> pre_elem) \<Rightarrow> node \<Rightarrow> node" where
  "for_each_pre f (Heading x) = Heading x"
| "for_each_pre f (Pre x) = Pre (f x)"
| "for_each_pre f (Box tag ns) = Box tag (map (for_each_pre f) ns)"
| "for_each_pre f (Leaf t) = Leaf t"


section \<open>Code blocks\<close>

text \<open>
  \<^verbatim>\<open>classList\<close>: the tokens of \<^verbatim>\<open>className\<close>, split at ASCII white space (TAB, LF,
  FF, CR, SPACE). A repeated token is kept here; \<^verbatim>\<open>find\<close> returns the first match
  either way.
\<close>

definition is_ascii_space :: "char \<Rightarrow> bool" where
  "is_ascii_space c = (let n = code_point c in n = 9 \<or> n = 10 \<or> n = 12 \<or> n = 13 \<or> n = 32)"

fun split_tokens :: "string \<Rightarrow> string \<Rightarrow> string list" where
  "split_tokens cur [] = (if cur = [] then [] else [cur])"
| "split_tokens cur (c # cs) =
     (if is_ascii_space c then (if cur = [] then split_tokens [] cs else cur # split_tokens [] cs)
      else split_tokens (cur @ [c]) cs)"

definition classList :: "string \<Rightarrow> string list" where
  "classList cls = split_tokens [] cls"

text \<open>
  The tag a code element declares: the first class token that starts with
  \<^verbatim>\<open>language-\<close>, without that prefix (the first occurrence \<^verbatim>\<open>replace\<close> removes),
  and the empty string when there is none.
\<close>

definition declared_language :: "code_elem \<Rightarrow> string" where
  "declared_language c =
     (case find (prefix ''language-'') (classList (code_class c)) of
        Some cls \<Rightarrow> drop (length ''language-'') cls
      | None \<Rightarrow> [])"

text \<open>The callback of \<^verbatim>\<open>highlightCodeBlocks\<close>, on a code element and its parent.\<close>

definition highlight_code :: "host \<Rightarrow> prism \<Rightarrow> pre_elem \<Rightarrow> pre_elem" where
  "highlight_code h P x =
     (let c = code x;
          lang = to_string (normalizeLang (Some (declared_language c)));
          c1 = (case languages P lang of
                  Some g \<Rightarrow> c\<lparr>content := InnerHTML (highlight P (code_text h c) g lang)\<rparr>
                | None \<Rightarrow> c);
          c2 = c1\<lparr>code_class := ''language-'' @ lang\<rparr>
      in x\<lparr>code := c2, pre_class := ''language-'' @ lang\<rparr>)"

definition highlightCodeBlocks :: "host \<Rightarrow> node list \<Rightarrow> prism \<Rightarrow> node list" where
  "highlightCodeBlocks h container P = map (for_each_pre (highlight_code h P)) container"

text \<open>
  The callback of \<^verbatim>\<open>addCopyButtons\<close>. The click listener it registers runs on a later
  event; what the call itself leaves is the button and the style.
\<close>

definition copy_button :: button where
  "copy_button =
     \<lparr>button_class = ''docs-copy-btn'', button_text = ''Copy'',
      aria_label = ''Copy code to clipboard''\<rparr>"

definition add_copy_button :: "pre_elem \<Rightarrow> pre_elem" where
  "add_copy_button x = x\<lparr>style_position := ''relative'', buttons := buttons x @ [copy_button]\<rparr>"

definition addCopyButtons :: "node list \<Rightarrow> node list" where
  "addCopyButtons container = map (for_each_pre add_copy_button) container"


section \<open>Headings and the table of contents\<close>

definition anchor_link :: "string \<Rightarrow> inline" where
  "anchor_link i =
     Inline ''a'' [(''class'', ''docs-anchor''), (''href'', ''#'' @ i), (''aria-hidden'', ''true'')]
       ''#''"

text \<open>The callback of \<^verbatim>\<open>addHeadingAnchors\<close>; \<^verbatim>\<open>!h.id\<close> holds for the empty id.\<close>

definition add_anchor :: "heading \<Rightarrow> heading" where
  "add_anchor x =
     (let i = (if hid x = [] then slugify (heading_text x) else hid x)
      in x\<lparr>hid := i, kids := kids x @ [anchor_link i]\<rparr>)"

definition addHeadingAnchors :: "node list \<Rightarrow> node list" where
  "addHeadingAnchors container = map (for_each_heading add_anchor) container"

text \<open>\<^verbatim>\<open>.replace(/#$/, '')\<close>\<close>

definition strip_trailing_hash :: "string \<Rightarrow> string" where
  "strip_trailing_hash s = (if s \<noteq> [] \<and> last s = CHR ''#'' then butlast s else s)"

definition toc_entry :: "heading \<Rightarrow> toc_item" where
  "toc_entry x =
     \<lparr>li_class = (if level x = H3 then ''docs-toc-h3'' else []),
      href = ''#'' @ hid x,
      label = trim (strip_trailing_hash (heading_text x))\<rparr>"

text \<open>
  \<^verbatim>\<open>buildTOC\<close>; \<open>None\<close> is \<^verbatim>\<open>null\<close>. The click listeners and the observer's
  callback run on later events and are not part of what the call returns; the headings
  handed to \<^verbatim>\<open>observer.observe\<close> are.
\<close>

definition buildTOC :: "node list \<Rightarrow> toc option" where
  "buildTOC container =
     (let headings = h2_h3_headings container
      in if length headings < 3 then None
         else Some \<lparr>nav_class = ''docs-toc'', title_class = ''docs-toc-title'',
                    title_text = ''On this page'', items = map toc_entry headings,
                    observed = headings\<rparr>)"


section \<open>The entry point\<close>

text \<open>
  \<^verbatim>\<open>loading.textContent = m\<close>: the message shows while the loading element is still
  the article's content; once \<^verbatim>\<open>innerHTML\<close> has replaced it the element is detached.
\<close>

definition set_loading_text :: "string \<Rightarrow> block_dom \<Rightarrow> block_dom" where
  "set_loading_text m b =
     (case b of
        Authored t \<Rightarrow> b
      | Mounted l \<Rightarrow>
          (case article l of
             Loading old \<Rightarrow> Mounted (l\<lparr>article := Loading m\<rparr>)
           | Document ns \<Rightarrow> b))"

text \<open>
  The body of the \<^verbatim>\<open>try\<close> block; \<open>Inl\<close> is the exception that reaches \<^verbatim>\<open>catch\<close>.
  The fetch is issued and \<^verbatim>\<open>loadPrism\<close> is called before \<^verbatim>\<open>Promise.all\<close> is
  awaited, so both leave their trace whichever of them fails.
\<close>

definition render :: "host \<Rightarrow> string \<Rightarrow> page \<Rightarrow> (error + unit) \<times> page" where
  "render h slug p =
     (case codeBasePath h of
        None \<Rightarrow> (Inl TypeError, p)
      | Some cb \<Rightarrow>
          (let url = cb @ ''/docs/'' @ slug @ ''.md'';
               p1 = p\<lparr>fetched := fetched p @ [url]\<rparr>;
               (loaded, p2) = loadPrism h p1
           in case fetch h url of
                Inl e \<Rightarrow> (Inl e, p2)
              | Inr resp \<Rightarrow>
                  (case loaded of
                     Inl e \<Rightarrow> (Inl e, p2)
                   | Inr P \<Rightarrow>
                       if \<not> ok resp then
                         (Inr (),
                          p2\<lparr>block := set_loading_text
                             (''Failed to load documentation ('' @ decimal (status resp) @ '')'')
                             (block p2)\<rparr>)
                       else
                         (case body_text resp of
                            Inl e \<Rightarrow> (Inl e, p2)
                          | Inr md \<Rightarrow>
                              (case marked_parse h md of
                                 Inl e \<Rightarrow> (Inl e, p2)
                               | Inr html \<Rightarrow>
                                   (let c0 = parse_html h html;
                                        c1 = highlightCodeBlocks h c0 P;
                                        c2 = addCopyButtons c1;
                                        c3 = addHeadingAnchors c2;
                                        toc = buildTOC c3;
                                        hash = location_hash h;
                                        target = drop 1 hash;
                                        found = (target \<noteq> [] \<and>
                                          target \<in> set (map hid (all_headings c3) @ document_ids h))
                                    in (Inr (),
                                        p2\<lparr>block := Mounted
                                              \<lparr>wrapper_class = ''docs-layout'',
                                               article_class = ''docs-content'',
                                               article = Document c3, nav = toc\<rparr>,
                                            scroll_target :=
                                              (if hash \<noteq> [] \<and> found then Some target
                                               else scroll_target p2)\<rparr>)))))))"

text \<open>
  \<^verbatim>\<open>decorate\<close>, run to the point where its promise settles. Everything behind the
  early return is inside \<^verbatim>\<open>try\<close>, and \<^verbatim>\<open>catch\<close> handles every exception, so the
  promise is never rejected: the result is the page.
\<close>

definition decorate :: "host \<Rightarrow> page \<Rightarrow> page" where
  "decorate h p =
     (let slug = trim (block_text h (block p))
      in if slug = [] then p
         else
           (let p0 = p\<lparr>block := Mounted
                        \<lparr>wrapper_class = ''docs-layout'', article_class = ''docs-content'',
                         article = Loading ''Loading documentation...'', nav = None\<rparr>\<rparr>
            in case render h slug p0 of
                 (Inr u, p1) \<Rightarrow> p1
               | (Inl err, p1) \<Rightarrow>
                   p1\<lparr>block := set_loading_text ''Failed to load documentation'' (block p1),
                      console_errors := console_errors p1 @ [err]\<rparr>))"


section \<open>Example hosts, pages and documents\<close>

text \<open>
  A host whose fetch answers 404 and whose imports all resolve, the same host with every
  import failing, a page holding an untouched block, and small headings and code blocks.
\<close>

definition ex_prism :: prism where
  "ex_prism =
     \<lparr>manual = False,
      languages = (\<lambda>k. if k = ''javascript'' then Some (Grammar k) else None),
      highlight = (\<lambda>t g l. ''<span class=\"token\">'' @ t @ ''</span>'')\<rparr>"

definition ex_host :: host where
  "ex_host =
     \<lparr>codeBasePath = Some '''',
      import_resolves = (\<lambda>u. True),
      engine = ex_prism,
      define_grammar = (\<lambda>u P. P),
      fetch = (\<lambda>u. Inr \<lparr>ok = False, status = 404, body_text = Inr ''Not Found''\<rparr>),
      marked_parse = (\<lambda>m. Inr m),
      parse_html = (\<lambda>m. []),
      markup_text = (\<lambda>m. m),
      location_hash = '''',
      document_ids = []\<rparr>"

definition ex_page :: "string \<Rightarrow> page" where
  "ex_page t =
     \<lparr>window_Prism = None, imported = [], fetched = [], block = Authored t,
      console_errors = [], scroll_target = None\<rparr>"

definition ex_heading :: "heading_level \<Rightarrow> string \<Rightarrow> string \<Rightarrow> heading" where
  "ex_heading l i t = \<lparr>level = l, hid = i, kids = [Txt t]\<rparr>"

definition ex_pre :: "string \<Rightarrow> string \<Rightarrow> pre_elem" where
  "ex_pre cls t =
     \<lparr>pre_class = [], style_position = [],
      code = \<lparr>code_class = cls, content = TextNode t\<rparr>, buttons = []\<rparr>"

definition ex_offline_host :: host where
  "ex_offline_host = ex_host\<lparr>import_resolves := (\<lambda>u. False)\<rparr>"


section \<open>Notions used in the proofs\<close>

text \<open>
  A string is hyphen separated when each of its characters is a word character or a
  hyphen and every hyphen but one at the very end is followed by a word character. That
  is what the first replacement leaves, and what it leaves alone.
\<close>

fun hyphen_separated :: "string \<Rightarrow> bool" where
  "hyphen_separated [] = True"
| "hyphen_separated [c] = (is_word c \<or> c = CHR ''-'')"
| "hyphen_separated (c # d # cs) =
     ((is_word c \<or> (c = CHR ''-'' \<and> is_word d)) \<and> hyphen_separated (d # cs))"

text \<open>The second replacement, taken apart: the match at index 0, then the match at the end.\<close>

definition drop_leading_hyphen :: "string \<Rightarrow> string" where
  "drop_leading_hyphen s = (case s of [] \<Rightarrow> [] | c # cs \<Rightarrow> if c = CHR ''-'' then cs else c # cs)"

definition drop_trailing_hyphen :: "string \<Rightarrow> string" where
  "drop_trailing_hyphen s = (if s \<noteq> [] \<and> last s = CHR ''-'' then butlast s else s)"

text \<open>The form of a slug: hyphen separated, with no hyphen at either end.\<close>

definition slug_nf :: "string \<Rightarrow> bool" where
  "slug_nf u = (hyphen_separated u \<and> (u = [] \<or> (hd u \<noteq> CHR ''-'' \<and> last u \<noteq> CHR ''-'')))"


section \<open>Verification: characters\<close>

lemma lower_char_idem: "lower_char (lower_char c) = lower_char c"
  by (simp add: lower_char_def code_point_def Let_def)

lemma lower_char_hyphen: "lower_char (CHR ''-'') = CHR ''-''"
  by (simp add: lower_char_def code_point_def)

lemma hyphen_not_word: "\<not> is_word (CHR ''-'')"
  by (simp add: is_word_def code_point_def)


section \<open>Verification: the language normalizer\<close>

lemma normalizeLang_absent: "normalizeLang None = JSString ''javascript''"
  by (simp add: normalizeLang_def)

lemma normalizeLang_empty: "normalizeLang (Some []) = JSString ''javascript''"
  by (simp add: normalizeLang_def)

lemma normalizeLang_alias:
  "s \<noteq> [] \<Longrightarrow> map_of LANG_MAP_own (trim (toLowerCase s)) = Some v \<Longrightarrow>
   normalizeLang (Some s) = JSString v"
  by (simp add: normalizeLang_def LANG_MAP_def)

lemma normalizeLang_pass_through:
  "s \<noteq> [] \<Longrightarrow> LANG_MAP (trim (toLowerCase s)) = None \<Longrightarrow>
   normalizeLang (Some s) = JSString (trim (toLowerCase s))"
  by (simp add: normalizeLang_def)

lemma alias_nonempty: "map_of LANG_MAP_own k = Some v \<Longrightarrow> v \<noteq> []"
  by (auto simp: LANG_MAP_own_def split: if_splits)

lemma to_string_LANG_MAP_nonempty: "LANG_MAP k = Some v \<Longrightarrow> to_string v \<noteq> []"
  by (auto simp: LANG_MAP_def to_string_def alias_nonempty split: option.splits if_splits)

lemma trim_chars: "set (trim s) \<subseteq> set s"
proof -
  have "set (trim s) \<subseteq> set (rev (dropWhile is_space s))"
    unfolding trim_def set_rev by (auto dest: set_dropWhileD)
  then show ?thesis by (auto dest: set_dropWhileD)
qed

lemma lowered_tag_chars: "c \<in> set (trim (toLowerCase s)) \<Longrightarrow> lower_char c = c"
  using trim_chars[of "toLowerCase s"] by (auto simp: toLowerCase_def lower_char_idem)

lemma members_with_capitals:
  "\<forall>l\<in>set object_prototype_members.
     l = ''constructor'' \<or> l = ''__proto__'' \<or> (\<exists>c\<in>set l. lower_char c \<noteq> c)"
  by code_simp

lemma lowered_member:
  assumes "l \<in> set object_prototype_members" and "\<forall>c\<in>set l. lower_char c = c"
  shows "l = ''constructor'' \<or> l = ''__proto__''"
  using assms members_with_capitals by blast

lemma normalizeLang_unaliased:
  assumes "s \<noteq> []"
    and "map_of LANG_MAP_own (trim (toLowerCase s)) = None"
    and "trim (toLowerCase s) \<noteq> ''constructor''"
    and "trim (toLowerCase s) \<noteq> ''__proto__''"
  shows "normalizeLang (Some s) = JSString (trim (toLowerCase s))"
proof -
  have "trim (toLowerCase s) \<notin> set object_prototype_members"
    using lowered_member[of "trim (toLowerCase s)"] lowered_tag_chars[of _ s] assms(3,4)
    by blast
  then have "LANG_MAP (trim (toLowerCase s)) = None"
    using assms(2) by (simp add: LANG_MAP_def)
  then show ?thesis using assms(1) by (simp add: normalizeLang_def)
qed

text \<open>
  C2. The normalizer returns \<^verbatim>\<open>javascript\<close> for the absent and for the empty tag
  (\<open>normalizeLang_absent\<close>, \<open>normalizeLang_empty\<close>), the canonical name for an alias
  (\<open>normalizeLang_alias\<close>) and the lowercased, trimmed tag when the lookup finds nothing
  (\<open>normalizeLang_pass_through\<close>), which is every tag but two
  (\<open>normalizeLang_unaliased\<close>). The lookup does find something for a tag that is no
  alias but names a member of \<^verbatim>\<open>Object.prototype\<close>: for the tag
  \<^verbatim>\<open>constructor\<close> the normalizer returns the inherited function, not the tag.
\<close>

theorem normalizeLang_inherited_member:
  "normalizeLang (Some ''constructor'') = Inherited ''constructor''
   \<and> normalizeLang (Some ''constructor'') \<noteq> JSString ''constructor''
   \<and> to_string (normalizeLang (Some ''constructor'')) = ''function Object() { [native code] }''"
  by code_simp

text \<open>
  C3, as stated, fails: a tag of white space only resolves to the empty string, and an
  unrecognized tag resolves to itself, not to a fallback language.
\<close>

theorem normalizeLang_blank_and_unknown:
  "normalizeLang (Some ''  '') = JSString [] \<and> normalizeLang (Some ''python'') = JSString ''python''"
  by code_simp

text \<open>
  C3, amended. The absent and the empty tag resolve to \<^verbatim>\<open>javascript\<close>; every tag that
  holds a character other than white space resolves to a value whose printed form is not
  empty; and a tag for which the lookup finds nothing resolves to its lowercased, trimmed
  form, with no fallback language in its place.
\<close>

theorem normalizeLang_resolved:
  "normalizeLang None = JSString ''javascript''
   \<and> normalizeLang (Some []) = JSString ''javascript''
   \<and> (trim (toLowerCase s) \<noteq> [] \<longrightarrow> to_string (normalizeLang (Some s)) \<noteq> [])
   \<and> (s \<noteq> [] \<and> LANG_MAP (trim (toLowerCase s)) = None \<longrightarrow>
        normalizeLang (Some s) = JSString (trim (toLowerCase s)))"
proof -
  have "to_string (normalizeLang (Some s)) \<noteq> []" if l: "trim (toLowerCase s) \<noteq> []"
  proof (cases "LANG_MAP (trim (toLowerCase s))")
    case None
    moreover have "s \<noteq> []" using l by (auto simp: trim_def toLowerCase_def)
    ultimately show ?thesis using l by (simp add: normalizeLang_pass_through to_string_def)
  next
    case (Some v)
    moreover have "s \<noteq> []" using l by (auto simp: trim_def toLowerCase_def)
    ultimately show ?thesis
      using to_string_LANG_MAP_nonempty[of "trim (toLowerCase s)" v]
      by (simp add: normalizeLang_def)
  qed
  then show ?thesis
    by (simp add: normalizeLang_absent normalizeLang_empty normalizeLang_pass_through)
qed

theorem normalizeLang_resolved_witness:
  "trim (toLowerCase '' Python '') \<noteq> []
   \<and> LANG_MAP (trim (toLowerCase '' Python '')) = None
   \<and> to_string (normalizeLang (Some '' Python '')) \<noteq> []
   \<and> normalizeLang (Some '' Python '') = JSString ''python''"
proof -
  have a: "trim (toLowerCase '' Python '') \<noteq> []" by code_simp
  have b: "'' Python '' \<noteq> [] \<and> LANG_MAP (trim (toLowerCase '' Python '')) = None" by code_simp
  have c: "trim (toLowerCase '' Python '') = ''python''" by code_simp
  show ?thesis using a b c normalizeLang_resolved[of "'' Python ''"] by (simp add: to_string_def)
qed


section \<open>Verification: slugs\<close>

lemma rnr_head:
  "replace_nonword_runs s = [] \<or>
   (s \<noteq> [] \<and> hd (replace_nonword_runs s) = (if is_word (hd s) then hd s else CHR ''-''))"
  by (cases s) auto

lemma dropWhile_nonword_head:
  "dropWhile (\<lambda>d. \<not> is_word d) cs = [] \<or> is_word (hd (dropWhile (\<lambda>d. \<not> is_word d) cs))"
  using hd_dropWhile[of "\<lambda>d. \<not> is_word d" cs] by auto

lemma hs_cons_word: "is_word c \<Longrightarrow> hyphen_separated (c # u) = hyphen_separated u"
  by (cases u) (auto)

lemma hs_cons_hyphen:
  "hyphen_separated (CHR ''-'' # u) = (u = [] \<or> (is_word (hd u) \<and> hyphen_separated u))"
  by (cases u) (auto simp: hyphen_not_word)

lemma rnr_separated: "hyphen_separated (replace_nonword_runs s)"
proof (induction s rule: replace_nonword_runs.induct)
  case 1
  then show ?case by simp
next
  case (2 c cs)
  show ?case
  proof (cases "is_word c")
    case True
    then show ?thesis using 2 by (simp add: hs_cons_word)
  next
    case False
    let ?r = "dropWhile (\<lambda>d. \<not> is_word d) cs"
    have ih: "hyphen_separated (replace_nonword_runs ?r)" using 2 False by simp
    have "?r = [] \<or> is_word (hd ?r)" by (rule dropWhile_nonword_head)
    then have "replace_nonword_runs ?r = [] \<or> is_word (hd (replace_nonword_runs ?r))"
      by (cases ?r) (simp_all del: dropWhile_eq_Nil_conv)
    then show ?thesis using False ih by (simp add: hs_cons_hyphen)
  qed
qed

lemma rnr_fixed: "hyphen_separated u \<Longrightarrow> replace_nonword_runs u = u"
proof (induction u rule: hyphen_separated.induct)
  case 1
  then show ?case by simp
next
  case (2 c)
  then show ?case by auto
next
  case (3 c d cs)
  then show ?case by (auto simp: hyphen_not_word)
qed

lemma rnr_chars: "set (replace_nonword_runs s) \<subseteq> insert (CHR ''-'') (set s)"
proof (induction s rule: replace_nonword_runs.induct)
  case 1
  then show ?case by simp
next
  case (2 c cs)
  have "set (dropWhile (\<lambda>d. \<not> is_word d) cs) \<subseteq> set cs"
    by (auto dest: set_dropWhileD)
  then show ?case using 2 by (auto split: if_splits)
qed

lemma hs_chars: "hyphen_separated u \<Longrightarrow> c \<in> set u \<Longrightarrow> is_word c \<or> c = CHR ''-''"
  by (induction u rule: hyphen_separated.induct) auto

lemma hs_append: "hyphen_separated (xs @ ys) \<Longrightarrow> hyphen_separated xs"
proof (induction xs rule: hyphen_separated.induct)
  case 1
  then show ?case by simp
next
  case (2 c)
  then show ?case by (cases ys) auto
next
  case (3 c d cs)
  then show ?case by auto
qed

lemma hs_snoc_hyphen:
  "hyphen_separated (xs @ [CHR ''-'']) \<Longrightarrow> xs \<noteq> [] \<Longrightarrow> is_word (last xs)"
  by (induction xs rule: hyphen_separated.induct) (auto simp: hyphen_not_word)

lemma hs_tl: "hyphen_separated (c # u) \<Longrightarrow> hyphen_separated u"
  by (cases u) auto


lemma prefix_single: "prefix [c] u = (u \<noteq> [] \<and> hd u = c)"
  by (cases u) auto

lemma suffix_single: "suffix [c] u = (u \<noteq> [] \<and> last u = c)"
  by (cases u rule: rev_cases) (auto simp: suffix_def)

lemma strip_split: "strip_edge_hyphens s = drop_trailing_hyphen (drop_leading_hyphen s)"
  by (simp add: strip_edge_hyphens_def drop_leading_hyphen_def drop_trailing_hyphen_def Let_def)

lemma lead_nf:
  assumes "hyphen_separated u"
  shows "hyphen_separated (drop_leading_hyphen u)"
    and "drop_leading_hyphen u = [] \<or> hd (drop_leading_hyphen u) \<noteq> CHR ''-''"
proof -
  show "hyphen_separated (drop_leading_hyphen u)"
    using assms by (cases u) (auto simp: drop_leading_hyphen_def dest: hs_tl)
  show "drop_leading_hyphen u = [] \<or> hd (drop_leading_hyphen u) \<noteq> CHR ''-''"
  proof (cases u)
    case Nil
    then show ?thesis by (simp add: drop_leading_hyphen_def)
  next
    case (Cons c cs)
    show ?thesis
    proof (cases "c = CHR ''-''")
      case True
      then have "cs = [] \<or> is_word (hd cs)"
        using assms Cons by (auto simp: hs_cons_hyphen)
      then show ?thesis
        using Cons True hyphen_not_word by (auto simp: drop_leading_hyphen_def)
    next
      case False
      then show ?thesis using Cons by (simp add: drop_leading_hyphen_def)
    qed
  qed
qed

lemma trail_nf:
  assumes hs: "hyphen_separated u" and hd: "u = [] \<or> hd u \<noteq> CHR ''-''"
  shows "hyphen_separated (drop_trailing_hyphen u)"
    and "drop_trailing_hyphen u = [] \<or>
         (hd (drop_trailing_hyphen u) \<noteq> CHR ''-'' \<and> last (drop_trailing_hyphen u) \<noteq> CHR ''-'')"
proof -
  show "hyphen_separated (drop_trailing_hyphen u)"
  proof (cases "u \<noteq> [] \<and> last u = CHR ''-''")
    case True
    then have "u = butlast u @ [CHR ''-'']" by (metis append_butlast_last_id)
    then have "hyphen_separated (butlast u)" using hs hs_append by metis
    then show ?thesis using True by (simp add: drop_trailing_hyphen_def)
  next
    case False
    then show ?thesis using hs by (auto simp: drop_trailing_hyphen_def)
  qed
  show "drop_trailing_hyphen u = [] \<or>
         (hd (drop_trailing_hyphen u) \<noteq> CHR ''-'' \<and> last (drop_trailing_hyphen u) \<noteq> CHR ''-'')"
  proof (cases "u \<noteq> [] \<and> last u = CHR ''-''")
    case True
    then have eq: "u = butlast u @ [CHR ''-'']" by (metis append_butlast_last_id)
    show ?thesis
    proof (cases "butlast u = []")
      case True
      then show ?thesis using \<open>u \<noteq> [] \<and> last u = CHR ''-''\<close> by (simp add: drop_trailing_hyphen_def)
    next
      case False
      have "is_word (last (butlast u))"
        using hs eq False hs_snoc_hyphen[of "butlast u"] by metis
      then have l: "last (butlast u) \<noteq> CHR ''-''" using hyphen_not_word by auto
      have "hd (butlast u) = hd u" using False by (cases u) auto
      then have "hd (butlast u) \<noteq> CHR ''-''" using hd True by auto
      then show ?thesis using l True by (simp add: drop_trailing_hyphen_def)
    qed
  next
    case False
    then show ?thesis using hd by (auto simp: drop_trailing_hyphen_def)
  qed
qed

lemma strip_nf: "hyphen_separated u \<Longrightarrow> slug_nf (strip_edge_hyphens u)"
  unfolding slug_nf_def strip_split
  using lead_nf[of u] trail_nf[of "drop_leading_hyphen u"] by blast

lemma nf_strip: "slug_nf u \<Longrightarrow> strip_edge_hyphens u = u"
  by (cases u) (auto simp: slug_nf_def strip_edge_hyphens_def)

lemma strip_chars: "set (strip_edge_hyphens s) \<subseteq> set s"
  by (cases s) (auto simp: strip_edge_hyphens_def dest: in_set_butlastD)

lemma slugify_nf: "slug_nf (slugify t)"
  by (simp add: slugify_def strip_nf rnr_separated)

lemma slugify_lower: "c \<in> set (slugify t) \<Longrightarrow> lower_char c = c"
proof -
  assume "c \<in> set (slugify t)"
  then have "c \<in> set (replace_nonword_runs (toLowerCase t))"
    using strip_chars by (auto simp: slugify_def)
  then have "c = CHR ''-'' \<or> c \<in> set (toLowerCase t)" using rnr_chars by auto
  then show ?thesis by (auto simp: toLowerCase_def lower_char_idem lower_char_hyphen)
qed

lemma slugify_fixed: "slugify (slugify t) = slugify t"
proof -
  have "toLowerCase (slugify t) = slugify t"
    unfolding toLowerCase_def by (rule map_idI) (rule slugify_lower)
  moreover have "hyphen_separated (slugify t)" using slugify_nf by (simp add: slug_nf_def)
  ultimately have "slugify (slugify t) = strip_edge_hyphens (slugify t)"
    by (simp add: slugify_def[of "slugify t"] rnr_fixed)
  then show ?thesis using slugify_nf nf_strip by simp
qed

text \<open>
  C4. \<open>slugify\<close> is a function of its argument, and slugifying a slug gives it back;
  a slug neither starts nor ends with a hyphen; and each of its characters is a word
  character or a hyphen.
\<close>

theorem slugify_idempotent_clean:
  "slugify (slugify t) = slugify t
   \<and> \<not> prefix ''-'' (slugify t) \<and> \<not> suffix ''-'' (slugify t)
   \<and> list_all (\<lambda>c. is_word c \<or> c = CHR ''-'') (slugify t)"
proof -
  have nf: "slug_nf (slugify t)" by (rule slugify_nf)
  have "list_all (\<lambda>c. is_word c \<or> c = CHR ''-'') (slugify t)"
    unfolding list_all_iff using nf hs_chars by (auto simp: slug_nf_def)
  then show ?thesis
    using nf slugify_fixed by (auto simp: slug_nf_def prefix_single suffix_single)
qed

theorem slugify_idempotent_clean_witness:
  "slugify ''  Hello,  World! -- 2nd_Time?'' = ''hello-world-2nd_time''
   \<and> slugify ''hello-world-2nd_time'' = ''hello-world-2nd_time''"
proof -
  have a: "slugify ''  Hello,  World! -- 2nd_Time?'' = ''hello-world-2nd_time''"
    by code_simp
  show ?thesis
    using a slugify_idempotent_clean[of "''  Hello,  World! -- 2nd_Time?''"] by simp
qed


section \<open>Verification: the rendered tree\<close>

text \<open>A \<^verbatim>\<open>forEach\<close> over a selector's matches maps the callback over them, in order.\<close>

lemma headings_in_for_each_heading:
  "headings_in (for_each_heading f n) = map f (headings_in n)"
  by (induction n) (simp_all add: map_concat comp_def cong: map_cong)

lemma pres_in_for_each_pre: "pres_in (for_each_pre f n) = map f (pres_in n)"
  by (induction n) (simp_all add: map_concat comp_def cong: map_cong)

lemma headings_in_for_each_pre: "headings_in (for_each_pre f n) = headings_in n"
  by (induction n) (simp_all add: comp_def cong: map_cong)

lemma pres_in_for_each_heading: "pres_in (for_each_heading f n) = pres_in n"
  by (induction n) (simp_all add: comp_def cong: map_cong)

lemma all_headings_addHeadingAnchors:
  "all_headings (addHeadingAnchors c) = map add_anchor (all_headings c)"
  by (simp add: all_headings_def addHeadingAnchors_def map_concat comp_def
      headings_in_for_each_heading)

lemma all_pres_highlightCodeBlocks:
  "all_pres (highlightCodeBlocks h c P) = map (highlight_code h P) (all_pres c)"
  by (simp add: all_pres_def highlightCodeBlocks_def map_concat comp_def pres_in_for_each_pre)

lemma all_pres_addCopyButtons:
  "all_pres (addCopyButtons c) = map add_copy_button (all_pres c)"
  by (simp add: all_pres_def addCopyButtons_def map_concat comp_def pres_in_for_each_pre)


text \<open>
  Highlighting and the copy buttons leave the headings as they are, and the anchors keep
  their levels: the table of contents is built from the images of the headings that the
  HTML parser delivered.
\<close>

lemma level_add_anchor: "level (add_anchor x) = level x"
  by (simp add: add_anchor_def Let_def)

lemma all_headings_highlightCodeBlocks:
  "all_headings (highlightCodeBlocks h c P) = all_headings c"
  by (simp add: all_headings_def highlightCodeBlocks_def comp_def headings_in_for_each_pre)

lemma all_headings_addCopyButtons: "all_headings (addCopyButtons c) = all_headings c"
  by (simp add: all_headings_def addCopyButtons_def comp_def headings_in_for_each_pre)

lemma h2_h3_headings_addHeadingAnchors:
  "h2_h3_headings (addHeadingAnchors c) = map add_anchor (h2_h3_headings c)"
  by (simp add: h2_h3_headings_def all_headings_addHeadingAnchors filter_map comp_def
      level_add_anchor)


section \<open>Verification: code blocks\<close>

lemma declared_language_js: "code_class c = ''language-js'' \<Longrightarrow> declared_language c = ''js''"
proof -
  assume a: "code_class c = ''language-js''"
  have "classList ''language-js'' = [''language-js'']" by code_simp
  moreover have "find (prefix ''language-'') [''language-js''] = Some ''language-js''"
    by code_simp
  ultimately show ?thesis using a by (simp add: declared_language_def)
qed

lemma normalizeLang_js: "to_string (normalizeLang (Some ''js'')) = ''javascript''"
  by code_simp

text \<open>
  C7. The code blocks of the augmented tree are the images of the code blocks of the
  rendered tree under the callback, in order. The callback sets the class of the code
  element and the class of its parent to \<^verbatim>\<open>language-\<close> followed by the normalized
  tag; it replaces the content by the highlighter's markup when the engine has a
  grammar under the normalized tag and leaves the content as it is otherwise. A block
  whose class is \<^verbatim>\<open>language-js\<close> ends with \<^verbatim>\<open>language-javascript\<close> on both.
\<close>

theorem highlightCodeBlocks_markers:
  "all_pres (highlightCodeBlocks h c P) = map (highlight_code h P) (all_pres c)
   \<and> code_class (code (highlight_code h P x))
       = ''language-'' @ to_string (normalizeLang (Some (declared_language (code x))))
   \<and> pre_class (highlight_code h P x)
       = ''language-'' @ to_string (normalizeLang (Some (declared_language (code x))))
   \<and> content (code (highlight_code h P x))
       = (case languages P (to_string (normalizeLang (Some (declared_language (code x))))) of
            Some g \<Rightarrow>
              InnerHTML (highlight P (code_text h (code x)) g
                (to_string (normalizeLang (Some (declared_language (code x))))))
          | None \<Rightarrow> content (code x))
   \<and> (code_class (code x) = ''language-js'' \<longrightarrow>
        code_class (code (highlight_code h P x)) = ''language-javascript''
        \<and> pre_class (highlight_code h P x) = ''language-javascript'')"
proof -
  have js: "code_class (code x) = ''language-js'' \<Longrightarrow>
      to_string (normalizeLang (Some (declared_language (code x)))) = ''javascript''"
    by (simp add: declared_language_js normalizeLang_js)
  have marks: "code_class (code (highlight_code h P x))
       = ''language-'' @ to_string (normalizeLang (Some (declared_language (code x))))"
    "pre_class (highlight_code h P x)
       = ''language-'' @ to_string (normalizeLang (Some (declared_language (code x))))"
    by (simp_all add: highlight_code_def Let_def)
  have body: "content (code (highlight_code h P x))
       = (case languages P (to_string (normalizeLang (Some (declared_language (code x))))) of
            Some g \<Rightarrow>
              InnerHTML (highlight P (code_text h (code x)) g
                (to_string (normalizeLang (Some (declared_language (code x))))))
          | None \<Rightarrow> content (code x))"
    by (simp add: highlight_code_def Let_def split: option.splits)
  show ?thesis
    using js marks body all_pres_highlightCodeBlocks[of h c P] by simp
qed

theorem highlightCodeBlocks_markers_witness:
  "all_pres (highlightCodeBlocks ex_host
      [Box ''li'' [Pre (ex_pre ''hljs language-js'' ''let x;'')],
       Pre (ex_pre ''language-rust'' ''fn f()'')] ex_prism)
    = [\<lparr>pre_class = ''language-javascript'', style_position = [],
        code = \<lparr>code_class = ''language-javascript'',
                 content = InnerHTML ''<span class=\"token\">let x;</span>''\<rparr>,
        buttons = []\<rparr>,
       \<lparr>pre_class = ''language-rust'', style_position = [],
        code = \<lparr>code_class = ''language-rust'', content = TextNode ''fn f()''\<rparr>,
        buttons = []\<rparr>]
   \<and> pre_class (highlight_code ex_host ex_prism (ex_pre ''language-js'' ''let x;''))
       = ''language-javascript''"
proof -
  let ?js = "ex_pre ''hljs language-js'' ''let x;''"
  let ?rust = "ex_pre ''language-rust'' ''fn f()''"
  let ?c = "[Box ''li'' [Pre ?js], Pre ?rust]"
  have ps: "all_pres ?c = [?js, ?rust]"
    by (simp add: all_pres_def)
  have a: "highlight_code ex_host ex_prism ?js
      = \<lparr>pre_class = ''language-javascript'', style_position = [],
         code = \<lparr>code_class = ''language-javascript'',
                  content = InnerHTML ''<span class=\"token\">let x;</span>''\<rparr>,
         buttons = []\<rparr>"
    by code_simp
  have b: "highlight_code ex_host ex_prism ?rust
      = \<lparr>pre_class = ''language-rust'', style_position = [],
         code = \<lparr>code_class = ''language-rust'', content = TextNode ''fn f()''\<rparr>,
         buttons = []\<rparr>"
    by code_simp
  have c: "code_class (code (ex_pre ''language-js'' ''let x;'')) = ''language-js''"
    by (simp add: ex_pre_def)
  note inst =
    highlightCodeBlocks_markers[of ex_host ?c ex_prism "ex_pre ''language-js'' ''let x;''"]
  have t1: "all_pres (highlightCodeBlocks ex_host ?c ex_prism)
      = map (highlight_code ex_host ex_prism) (all_pres ?c)"
    using inst by blast
  have t2: "pre_class (highlight_code ex_host ex_prism (ex_pre ''language-js'' ''let x;''))
      = ''language-javascript''"
    using inst c by blast
  show ?thesis
    unfolding t1 ps using a b t2 by simp
qed


section \<open>Verification: heading anchors\<close>

text \<open>
  C8, as stated, fails: run on a heading that has its id and its anchor link from a
  first run, the augmenter appends a second, identical link.
\<close>

theorem addHeadingAnchors_rerun_duplicate:
  "all_headings (addHeadingAnchors [Heading (ex_heading H2 ''setup'' ''Setup'')])
     = [\<lparr>level = H2, hid = ''setup'', kids = [Txt ''Setup'', anchor_link ''setup'']\<rparr>]
   \<and> all_headings (addHeadingAnchors (addHeadingAnchors [Heading (ex_heading H2 ''setup'' ''Setup'')]))
     = [\<lparr>level = H2, hid = ''setup'',
         kids = [Txt ''Setup'', anchor_link ''setup'', anchor_link ''setup'']\<rparr>]"
  by (simp add: all_headings_def addHeadingAnchors_def add_anchor_def ex_heading_def Let_def)

text \<open>
  C8, amended. The headings of the augmented tree are the images of the headings under
  the callback, in order; on a heading that carries an id the callback leaves the id
  unchanged and appends one anchor link to that id, whatever the heading holds already.
\<close>

theorem add_anchor_keeps_id:
  "all_headings (addHeadingAnchors c) = map add_anchor (all_headings c)
   \<and> (hid x \<noteq> [] \<longrightarrow>
        hid (add_anchor x) = hid x \<and> kids (add_anchor x) = kids x @ [anchor_link (hid x)])"
  by (simp add: all_headings_addHeadingAnchors add_anchor_def Let_def)

theorem add_anchor_keeps_id_witness:
  "hid (ex_heading H2 ''setup'' ''Setup'') \<noteq> []
   \<and> hid (add_anchor (ex_heading H2 ''setup'' ''Setup'')) = ''setup''
   \<and> kids (add_anchor (ex_heading H2 ''setup'' ''Setup''))
       = [Txt ''Setup'', anchor_link ''setup'']"
proof -
  have a: "hid (ex_heading H2 ''setup'' ''Setup'') \<noteq> []" by (simp add: ex_heading_def)
  show ?thesis
    using a add_anchor_keeps_id[of "[]" "ex_heading H2 ''setup'' ''Setup''"]
    by (simp add: ex_heading_def)
qed

text \<open>
  C9, as stated, fails: two headings with the text \<^verbatim>\<open>Setup\<close> both get the id
  \<^verbatim>\<open>setup\<close>.
\<close>

theorem addHeadingAnchors_same_text_collides:
  "map hid (all_headings (addHeadingAnchors
      [Heading (ex_heading H2 [] ''Setup''), Leaf ''first'', Heading (ex_heading H2 [] ''Setup'')]))
    = [''setup'', ''setup'']"
proof -
  have "slugify ''Setup'' = ''setup''" by code_simp
  then show ?thesis
    by (simp add: all_headings_def addHeadingAnchors_def add_anchor_def ex_heading_def
        heading_text_def inline_text_def Let_def)
qed

text \<open>
  C9, amended. Two headings without an id whose texts are the same get the same id, the
  slug of that text.
\<close>

theorem add_anchor_same_text_same_id:
  "hid x = [] \<and> hid y = [] \<and> heading_text x = heading_text y \<longrightarrow>
     hid (add_anchor x) = slugify (heading_text x) \<and> hid (add_anchor y) = hid (add_anchor x)"
  by (simp add: add_anchor_def Let_def)

theorem add_anchor_same_text_same_id_witness:
  "hid (ex_heading H2 [] ''Setup'') = [] \<and> hid (ex_heading H3 [] ''Setup'') = []
   \<and> heading_text (ex_heading H2 [] ''Setup'') = heading_text (ex_heading H3 [] ''Setup'')
   \<and> hid (add_anchor (ex_heading H2 [] ''Setup'')) = ''setup''
   \<and> hid (add_anchor (ex_heading H3 [] ''Setup'')) = ''setup''"
proof -
  have a: "hid (ex_heading H2 [] ''Setup'') = [] \<and> hid (ex_heading H3 [] ''Setup'') = []
     \<and> heading_text (ex_heading H2 [] ''Setup'') = heading_text (ex_heading H3 [] ''Setup'')"
    by (simp add: ex_heading_def heading_text_def)
  have b: "slugify (heading_text (ex_heading H2 [] ''Setup'')) = ''setup''" by code_simp
  show ?thesis
    using a b add_anchor_same_text_same_id[of "ex_heading H2 [] ''Setup''" "ex_heading H3 [] ''Setup''"]
    by simp
qed


section \<open>Verification: the table of contents\<close>

text \<open>
  C5. With fewer than three level-2 and level-3 headings \<^verbatim>\<open>buildTOC\<close> returns
  \<^verbatim>\<open>null\<close>. With three or more it returns a table of contents whose entries are the
  images of those headings, one for each and in document order, each linking to its
  heading's id.
\<close>

theorem buildTOC_threshold:
  "(length (h2_h3_headings c) < 3 \<longrightarrow> buildTOC c = None)
   \<and> (3 \<le> length (h2_h3_headings c) \<longrightarrow>
        (\<exists>t. buildTOC c = Some t
           \<and> items t = map toc_entry (h2_h3_headings c)
           \<and> length (items t) = length (h2_h3_headings c)
           \<and> map href (items t) = map (\<lambda>x. ''#'' @ hid x) (h2_h3_headings c)))"
  by (simp add: buildTOC_def Let_def toc_entry_def comp_def)

theorem buildTOC_threshold_witness:
  "buildTOC [Heading (ex_heading H1 ''top'' ''Top''), Heading (ex_heading H2 ''a'' ''A#''),
             Box ''blockquote'' [Heading (ex_heading H3 ''b'' ''B'')]] = None
   \<and> (\<exists>t. buildTOC [Heading (ex_heading H2 ''a'' ''A#''),
                     Box ''blockquote'' [Heading (ex_heading H3 ''b'' ''B'')],
                     Heading (ex_heading H1 ''top'' ''Top''),
                     Heading (ex_heading H2 ''c'' ''C'')] = Some t
          \<and> map href (items t) = [''#a'', ''#b'', ''#c'']
          \<and> map label (items t) = [''A'', ''B'', ''C'']
          \<and> map li_class (items t) = ['''', ''docs-toc-h3'', ''''])"
proof -
  let ?c2 = "[Heading (ex_heading H1 ''top'' ''Top''), Heading (ex_heading H2 ''a'' ''A#''),
             Box ''blockquote'' [Heading (ex_heading H3 ''b'' ''B'')]]"
  let ?c3 = "[Heading (ex_heading H2 ''a'' ''A#''),
                     Box ''blockquote'' [Heading (ex_heading H3 ''b'' ''B'')],
                     Heading (ex_heading H1 ''top'' ''Top''),
                     Heading (ex_heading H2 ''c'' ''C'')]"
  have h2: "h2_h3_headings ?c2 = [ex_heading H2 ''a'' ''A#'', ex_heading H3 ''b'' ''B'']"
    by (simp add: h2_h3_headings_def all_headings_def ex_heading_def)
  have h3: "h2_h3_headings ?c3 =
      [ex_heading H2 ''a'' ''A#'', ex_heading H3 ''b'' ''B'', ex_heading H2 ''c'' ''C'']"
    by (simp add: h2_h3_headings_def all_headings_def ex_heading_def)
  have small: "buildTOC ?c2 = None"
    using buildTOC_threshold[of ?c2] h2 by simp
  obtain t where t: "buildTOC ?c3 = Some t" "items t = map toc_entry (h2_h3_headings ?c3)"
    using buildTOC_threshold[of ?c3] h3 by auto
  have e: "map toc_entry
        [ex_heading H2 ''a'' ''A#'', ex_heading H3 ''b'' ''B'', ex_heading H2 ''c'' ''C'']
     = [\<lparr>li_class = '''', href = ''#a'', label = ''A''\<rparr>,
        \<lparr>li_class = ''docs-toc-h3'', href = ''#b'', label = ''B''\<rparr>,
        \<lparr>li_class = '''', href = ''#c'', label = ''C''\<rparr>]"
    by code_simp
  show ?thesis using small t h3 e by simp
qed


section \<open>Verification: the highlighter loader\<close>

lemma loadPrism_loaded: "window_Prism p = Some P \<Longrightarrow> loadPrism h p = (Inr P, p)"
  by (simp add: loadPrism_def)

lemma loadPrism_installs:
  "loadPrism h p = (Inr P, p') \<Longrightarrow> window_Prism p' = Some P"
  by (auto simp: loadPrism_def Let_def split: option.splits if_splits list.splits)

text \<open>
  C6. When a call of \<^verbatim>\<open>loadPrism\<close> has resolved with an engine, a second call
  afterwards resolves with the same engine and leaves the page as the first call left
  it: nothing more is imported.
\<close>

theorem loadPrism_idempotent:
  assumes "loadPrism h p = (Inr P, p')"
  shows "loadPrism h p' = (Inr P, p')
         \<and> imported (snd (loadPrism h p')) = imported p'
         \<and> window_Prism (snd (loadPrism h p')) = Some P"
proof -
  have installed: "window_Prism p' = Some P"
    using assms by (rule loadPrism_installs)
  then have "loadPrism h p' = (Inr P, p')"
    by (rule loadPrism_loaded)
  then show ?thesis using installed by simp
qed

theorem loadPrism_idempotent_witness:
  "\<exists>P p'. loadPrism ex_host (ex_page ''intro'') = (Inr P, p')
     \<and> loadPrism ex_host p' = (Inr P, p')
     \<and> manual P
     \<and> length (imported p') = 8"
proof -
  obtain r p' where run: "loadPrism ex_host (ex_page ''intro'') = (r, p')"
    by (cases "loadPrism ex_host (ex_page ''intro'')")
  have ok: "r = Inr (ex_prism\<lparr>manual := True\<rparr>)"
    using run by (simp add: loadPrism_def ex_host_def ex_page_def Let_def grammars_def)
  have n: "length (imported p') = 8"
    using run by (auto simp: loadPrism_def ex_host_def ex_page_def Let_def grammars_def)
  have again: "loadPrism ex_host p' = (Inr (ex_prism\<lparr>manual := True\<rparr>), p')"
    using run ok loadPrism_idempotent[of ex_host "ex_page ''intro''" "ex_prism\<lparr>manual := True\<rparr>" p']
    by simp
  show ?thesis using run ok n again by simp
qed


section \<open>Verification: the entry point\<close>

text \<open>
  C10. When the trimmed text of the block is empty \<^verbatim>\<open>decorate\<close> returns the page
  as it found it: no fetch and no import is issued and the block keeps its content.
\<close>

theorem decorate_blank_identifier:
  "trim (block_text h (block p)) = [] \<Longrightarrow> decorate h p = p"
  by (simp add: decorate_def)

theorem decorate_blank_identifier_witness:
  "trim (block_text ex_host (block (ex_page '' ''))) = []
   \<and> fetched (decorate ex_host (ex_page '' '')) = []
   \<and> imported (decorate ex_host (ex_page '' '')) = []
   \<and> window_Prism (decorate ex_host (ex_page '' '')) = None
   \<and> block (decorate ex_host (ex_page '' '')) = Authored '' ''"
proof -
  have a: "trim (block_text ex_host (block (ex_page '' ''))) = []" by code_simp
  show ?thesis
    using a decorate_blank_identifier[OF a] by (simp add: ex_page_def)
qed

text \<open>What \<^verbatim>\<open>loadPrism\<close> does depends on, and changes, the loader's part of the page only.\<close>

lemma loadPrism_result_frame:
  "fst (loadPrism h (p\<lparr>block := b, fetched := f\<rparr>)) = fst (loadPrism h p)"
  by (simp add: loadPrism_def Let_def split: option.splits list.splits)

lemma loadPrism_page_frame:
  "block (snd (loadPrism h p)) = block p"
  "console_errors (snd (loadPrism h p)) = console_errors p"
  "fetched (snd (loadPrism h p)) = fetched p"
  "scroll_target (snd (loadPrism h p)) = scroll_target p"
  by (simp_all add: loadPrism_def Let_def split: option.splits list.splits)

text \<open>
  The success path: with an ok response, a body, a conversion and an engine, the block
  ends with the augmented document and the table of contents built from it.
\<close>

lemma decorate_renders:
  assumes "trim (block_text h (block p)) \<noteq> []"
    and "codeBasePath h = Some cb"
    and "fetch h (cb @ ''/docs/'' @ trim (block_text h (block p)) @ ''.md'') = Inr resp"
    and "ok resp"
    and "body_text resp = Inr md"
    and "marked_parse h md = Inr html"
    and "fst (loadPrism h p) = Inr P"
  shows "block (decorate h p)
           = Mounted \<lparr>wrapper_class = ''docs-layout'', article_class = ''docs-content'',
                article = Document
                  (addHeadingAnchors (addCopyButtons (highlightCodeBlocks h (parse_html h html) P))),
                nav = buildTOC
                  (addHeadingAnchors (addCopyButtons (highlightCodeBlocks h (parse_html h html) P)))\<rparr>"
proof -
  let ?slug = "trim (block_text h (block p))"
  let ?lay = "\<lparr>wrapper_class = ''docs-layout'', article_class = ''docs-content'',
               article = Loading ''Loading documentation...'', nav = None\<rparr>"
  let ?p1 = "p\<lparr>block := Mounted ?lay, fetched := fetched p @ [cb @ ''/docs/'' @ ?slug @ ''.md'']\<rparr>"
  obtain r p2 where run: "loadPrism h ?p1 = (r, p2)" by (cases "loadPrism h ?p1")
  have r: "r = Inr P"
    using run assms(7)
      loadPrism_result_frame[where h = h and p = p
        and f = "fetched p @ [cb @ ''/docs/'' @ ?slug @ ''.md'']" and b = "Mounted ?lay"]
    by simp
  show ?thesis
    using assms(1-6) run r by (simp add: decorate_def render_def Let_def)
qed

text \<open>
  C1, as stated, fails: when the response is 404 and the highlighter fails to load,
  \<^verbatim>\<open>Promise.all\<close> rejects, and the message \<^verbatim>\<open>catch\<close> shows holds no status code.
\<close>

theorem decorate_404_load_failure:
  "fetch ex_offline_host ''/docs/intro.md'' = Inr \<lparr>ok = False, status = 404, body_text = Inr ''Not Found''\<rparr>
   \<and> fetched (decorate ex_offline_host (ex_page ''intro'')) = [''/docs/intro.md'']
   \<and> block (decorate ex_offline_host (ex_page ''intro''))
       = Mounted \<lparr>wrapper_class = ''docs-layout'', article_class = ''docs-content'',
                  article = Loading ''Failed to load documentation'', nav = None\<rparr>
   \<and> \<not> includes_str ''Failed to load documentation'' (decimal 404)"
  by code_simp

text \<open>
  C1, amended. When the fetch of a document is answered with a response that is not ok,
  the block ends with the loading element as the article's only content and no table of
  contents: no document content is rendered. When \<^verbatim>\<open>loadPrism\<close> resolves, the
  message is \<^verbatim>\<open>Failed to load documentation (\<close>status\<^verbatim>\<open>)\<close> with the status in
  decimal, and nothing reaches \<^verbatim>\<open>console.error\<close>. When \<^verbatim>\<open>loadPrism\<close> rejects,
  the message is \<^verbatim>\<open>Failed to load documentation\<close> and the rejection is logged. No
  exception leaves \<^verbatim>\<open>decorate\<close> either way.
\<close>

theorem decorate_fetch_failure:
  assumes "trim (block_text h (block p)) \<noteq> []"
    and "codeBasePath h = Some cb"
    and "fetch h (cb @ ''/docs/'' @ trim (block_text h (block p)) @ ''.md'') = Inr resp"
    and "\<not> ok resp"
  shows "block (decorate h p)
           = Mounted \<lparr>wrapper_class = ''docs-layout'', article_class = ''docs-content'',
                article = Loading
                  (case fst (loadPrism h p) of
                     Inr P \<Rightarrow> ''Failed to load documentation ('' @ decimal (status resp) @ '')''
                   | Inl e \<Rightarrow> ''Failed to load documentation''),
                nav = None\<rparr>
         \<and> console_errors (decorate h p)
           = (case fst (loadPrism h p) of
                Inr P \<Rightarrow> console_errors p
              | Inl e \<Rightarrow> console_errors p @ [e])"
proof -
  let ?slug = "trim (block_text h (block p))"
  let ?lay = "\<lparr>wrapper_class = ''docs-layout'', article_class = ''docs-content'',
               article = Loading ''Loading documentation...'', nav = None\<rparr>"
  let ?p1 = "p\<lparr>block := Mounted ?lay, fetched := fetched p @ [cb @ ''/docs/'' @ ?slug @ ''.md'']\<rparr>"
  obtain r p2 where run: "loadPrism h ?p1 = (r, p2)" by (cases "loadPrism h ?p1")
  have r: "r = fst (loadPrism h p)"
    using run loadPrism_result_frame[where h = h and p = p
        and f = "fetched p @ [cb @ ''/docs/'' @ ?slug @ ''.md'']" and b = "Mounted ?lay"]
    by simp
  have b2: "block p2 = Mounted ?lay" and c2: "console_errors p2 = console_errors p"
    using run loadPrism_page_frame(1,2)[of h ?p1] by simp_all
  show ?thesis
  proof (cases r)
    case (Inl e)
    then show ?thesis
      using assms run r[symmetric] b2 c2
      by (simp add: decorate_def render_def Let_def set_loading_text_def)
  next
    case (Inr P)
    then show ?thesis
      using assms run r[symmetric] b2 c2
      by (simp add: decorate_def render_def Let_def set_loading_text_def)
  qed
qed

theorem decorate_fetch_failure_witness:
  "block (decorate ex_host (ex_page ''intro''))
     = Mounted \<lparr>wrapper_class = ''docs-layout'', article_class = ''docs-content'',
                article = Loading ''Failed to load documentation (404)'', nav = None\<rparr>
   \<and> console_errors (decorate ex_host (ex_page ''intro'')) = []
   \<and> includes_str ''Failed to load documentation (404)'' (decimal 404)"
proof -
  have s: "trim (block_text ex_host (block (ex_page ''intro''))) = ''intro''" by code_simp
  have a: "trim (block_text ex_host (block (ex_page ''intro''))) \<noteq> []" using s by simp
  have b: "codeBasePath ex_host = Some []" by (simp add: ex_host_def)
  let ?resp = "\<lparr>ok = False, status = 404, body_text = Inr ''Not Found''\<rparr>"
  have c: "fetch ex_host ([] @ ''/docs/'' @ trim (block_text ex_host (block (ex_page ''intro''))) @ ''.md'') = Inr ?resp"
    by (simp add: ex_host_def)
  have d: "\<not> ok ?resp" by simp
  have l: "fst (loadPrism ex_host (ex_page ''intro'')) = Inr (ex_prism\<lparr>manual := True\<rparr>)"
    by (simp add: loadPrism_def ex_host_def ex_page_def Let_def grammars_def)
  have n: "decimal 404 = ''404''" by code_simp
  have i: "includes_str ''Failed to load documentation (404)'' ''404''" by code_simp
  show ?thesis
    using decorate_fetch_failure[OF a b c d] l n i by (simp add: ex_page_def)
qed

end
